theory Spec2Isabelle
  imports Complex_Main "HOL-Library.Sublist" "HOL-Library.AList"
begin

section \<open>JavaScript values\<close>

text \<open>
  The helpers of \<^verbatim>\<open>src/index.js\<close> are untyped JavaScript functions called by the
  template engine with whatever the template supplies. Their arguments are modelled by
  the values below. A number of the model is an integer from \<open>-2\<^sup>5\<^sup>3\<close> to \<open>2\<^sup>5\<^sup>3\<close>: in
  that range every integer is a Number value, equal to no other, and is spelled by its
  decimal digits. An object is a plain data object: the list of its own properties in
  insertion order, tagged with the identity (address) that \<^verbatim>\<open>==\<close> and \<^verbatim>\<open>===\<close>
  compare; its property values are data, never functions, and it inherits the methods of
  \<^verbatim>\<open>Object.prototype\<close> unshadowed. An object occurring at several places, under the
  same identity, is one object.

  A string is a list of characters, one per code unit; the characters are the code units
  up to \<^verbatim>\<open>U+00FF\<close>.
\<close>

typedef jsint = "{n :: int. - (2 ^ 53) \<le> n \<and> n \<le> 2 ^ 53}"
  morphisms int_of jsint
  by (rule exI[of _ 0]) simp

datatype jsval =
    JUndefined
  | JNull
  | JBool bool
  | JNum jsint
  | JStr string
  | JObj nat "(string \<times> jsval) list"

datatype error = TypeError

section \<open>Operators, conversions and property access\<close>

definition nullish :: "jsval \<Rightarrow> bool" where
  "nullish v = (v = JUndefined \<or> v = JNull)"

text \<open>The truth value a condition takes (\<^verbatim>\<open>if (v)\<close>, \<^verbatim>\<open>!v\<close>, \<^verbatim>\<open>v ? a : b\<close>).\<close>

fun truthy :: "jsval \<Rightarrow> bool" where
  "truthy JUndefined = False"
| "truthy JNull = False"
| "truthy (JBool b) = b"
| "truthy (JNum n) = (int_of n \<noteq> 0)"
| "truthy (JStr s) = (s \<noteq> [])"
| "truthy (JObj a fs) = True"

text \<open>\<^verbatim>\<open>v === w\<close>: primitives by value, objects by identity.\<close>

definition strict_eq :: "jsval \<Rightarrow> jsval \<Rightarrow> bool" where
  "strict_eq v w =
     (case (v, w) of (JObj a fs, JObj b gs) \<Rightarrow> a = b | _ \<Rightarrow> v = w)"

text \<open>The decimal spelling of an integer.\<close>

fun show_nat :: "nat \<Rightarrow> string" where
  "show_nat n =
     (if n < 10 then [''0123456789'' ! n]
      else show_nat (n div 10) @ [''0123456789'' ! (n mod 10)])"

declare show_nat.simps [simp del]

definition show_int :: "int \<Rightarrow> string" where
  "show_int i = (if i < 0 then ''-'' @ show_nat (nat (- i)) else show_nat (nat i))"

text \<open>\<^verbatim>\<open>String(v)\<close>, the conversion behind \<^verbatim>\<open>'' + v\<close>, \<^verbatim>\<open>concat\<close> and \<^verbatim>\<open>join\<close>.\<close>

fun to_string :: "jsval \<Rightarrow> string" where
  "to_string JUndefined = ''undefined''"
| "to_string JNull = ''null''"
| "to_string (JBool b) = (if b then ''true'' else ''false'')"
| "to_string (JNum n) = show_int (int_of n)"
| "to_string (JStr s) = s"
| "to_string (JObj a fs) = ''[object Object]''"

subsection \<open>The number a string spells\<close>

text \<open>
  \<^verbatim>\<open>Number(s)\<close> reads a string by the grammar of numeric string literals: white space
  around it is dropped; the empty string is \<open>0\<close>; \<^verbatim>\<open>0x\<close>, \<^verbatim>\<open>0o\<close> and \<^verbatim>\<open>0b\<close>
  (in either case) introduce unsigned hexadecimal, octal and binary digits; anything else
  is an optionally signed \<^verbatim>\<open>Infinity\<close> or decimal literal: digits with an optional
  fraction, or a fraction alone, and an optional exponent. \<open>string_value\<close> is the
  mathematical value of the literal, \<open>NaN\<close> for a string outside the grammar.
\<close>

datatype numeric = NaN | PlusInfinity | MinusInfinity | Finite rat

definition white_space :: string where
  "white_space = [CHR 0x09, CHR 0x0A, CHR 0x0B, CHR 0x0C, CHR 0x0D, CHR 0x20, CHR 0xA0]"

definition strip :: "string \<Rightarrow> string" where
  "strip s =
     rev (dropWhile (\<lambda>c. c \<in> set white_space) (rev (dropWhile (\<lambda>c. c \<in> set white_space) s)))"

definition digit_table :: "(char \<times> nat) list" where
  "digit_table =
     zip ''0123456789abcdefABCDEF''
       [0, 1, 2, 3, 4, 5, 6, 7, 8, 9, 10, 11, 12, 13, 14, 15, 10, 11, 12, 13, 14, 15]"

definition digit_of :: "nat \<Rightarrow> char \<Rightarrow> nat option" where
  "digit_of radix c =
     (case map_of digit_table c of
        None \<Rightarrow> None
      | Some d \<Rightarrow> if d < radix then Some d else None)"

fun digits_of :: "nat \<Rightarrow> string \<Rightarrow> nat \<Rightarrow> nat option" where
  "digits_of radix [] acc = Some acc"
| "digits_of radix (c # cs) acc =
     (case digit_of radix c of
        None \<Rightarrow> None
      | Some d \<Rightarrow> digits_of radix cs (radix * acc + d))"

definition integer_literal :: "nat \<Rightarrow> string \<Rightarrow> nat option" where
  "integer_literal radix ds = (if ds = [] then None else digits_of radix ds 0)"

text \<open>The exponent part: nothing, or \<^verbatim>\<open>e\<close> or \<^verbatim>\<open>E\<close>, an optional sign and digits.\<close>

definition exponent_part :: "string \<Rightarrow> int option" where
  "exponent_part ex =
     (case ex of
        [] \<Rightarrow> Some 0
      | e # ds \<Rightarrow>
          (case ds of
             [] \<Rightarrow> None
           | c # cs \<Rightarrow>
               if c = CHR ''-'' then map_option (\<lambda>n. - int n) (integer_literal 10 cs)
               else if c = CHR ''+'' then map_option int (integer_literal 10 cs)
               else map_option int (integer_literal 10 ds)))"

definition scale10 :: "nat \<Rightarrow> int \<Rightarrow> rat" where
  "scale10 m e = (if 0 \<le> e then of_nat m * 10 ^ nat e else of_nat m / 10 ^ nat (- e))"

definition decimal_literal :: "string \<Rightarrow> rat option" where
  "decimal_literal u =
     (let mantissa = takeWhile (\<lambda>c. c \<noteq> CHR ''e'' \<and> c \<noteq> CHR ''E'') u;
          ex = dropWhile (\<lambda>c. c \<noteq> CHR ''e'' \<and> c \<noteq> CHR ''E'') u;
          whole = takeWhile (\<lambda>c. c \<noteq> CHR ''.'') mantissa;
          fraction = drop 1 (dropWhile (\<lambda>c. c \<noteq> CHR ''.'') mantissa)
      in if whole = [] \<and> fraction = [] then None
         else (case digits_of 10 (whole @ fraction) 0 of
                 None \<Rightarrow> None
               | Some m \<Rightarrow>
                   (case exponent_part ex of
                      None \<Rightarrow> None
                    | Some e \<Rightarrow> Some (scale10 m (e - int (length fraction))))))"

definition signed_literal :: "bool \<Rightarrow> string \<Rightarrow> numeric" where
  "signed_literal negative u =
     (if u = ''Infinity'' then (if negative then MinusInfinity else PlusInfinity)
      else (case decimal_literal u of
              None \<Rightarrow> NaN
            | Some v \<Rightarrow> Finite (if negative then - v else v)))"

definition radix_literal :: "nat \<Rightarrow> string \<Rightarrow> numeric" where
  "radix_literal radix ds =
     (case integer_literal radix ds of None \<Rightarrow> NaN | Some n \<Rightarrow> Finite (of_nat n))"

definition string_value :: "string \<Rightarrow> numeric" where
  "string_value s =
     (case strip s of
        [] \<Rightarrow> Finite 0
      | c # cs \<Rightarrow>
          if c = CHR ''0'' \<and> cs \<noteq> [] \<and> hd cs \<in> set ''xX'' then radix_literal 16 (tl cs)
          else if c = CHR ''0'' \<and> cs \<noteq> [] \<and> hd cs \<in> set ''oO'' then radix_literal 8 (tl cs)
          else if c = CHR ''0'' \<and> cs \<noteq> [] \<and> hd cs \<in> set ''bB'' then radix_literal 2 (tl cs)
          else if c = CHR ''-'' then signed_literal True cs
          else if c = CHR ''+'' then signed_literal False cs
          else signed_literal False (c # cs))"

text \<open>
  The Number value of a literal is the double nearest to its mathematical value, a tie
  going to the double with the even significand. \<open>rounds_to v n\<close> says that this double
  is the integer \<open>n\<close>, for \<open>n\<close> from \<open>-2\<^sup>5\<^sup>3\<close> to \<open>2\<^sup>5\<^sup>3\<close>. For \<open>2\<^sup>k \<le> n < 2\<^sup>k\<^sup>+\<^sup>1\<close> the doubles
  above \<open>n\<close> are \<open>2\<^sup>k\<^sup>-\<^sup>5\<^sup>2\<close> apart, and so are those below, unless \<open>n\<close> is \<open>2\<^sup>k\<close> itself, where
  they are half as far apart; the significand of \<open>n\<close> is odd only for an odd \<open>n\<close> from
  \<open>2\<^sup>5\<^sup>2\<close> on. Around zero the nearest doubles are \<open>\<plusminus>2\<^sup>-\<^sup>1\<^sup>0\<^sup>7\<^sup>4\<close>.
\<close>

fun bit_length :: "nat \<Rightarrow> nat" where
  "bit_length n = (if n = 0 then 0 else Suc (bit_length (n div 2)))"

declare bit_length.simps [simp del]

definition nearest_positive :: "rat \<Rightarrow> int \<Rightarrow> bool" where
  "nearest_positive v n =
     (let k = bit_length (nat n) - 1;
          ulp = (if 52 \<le> k then 2 ^ (k - 52) else 1 / 2 ^ (52 - k)) :: rat;
          up = of_int n + ulp / 2;
          down = (if n = 2 ^ k then of_int n - ulp / 4 else of_int n - ulp / 2)
      in if k \<noteq> 52 \<or> even n then down \<le> v \<and> v \<le> up else down < v \<and> v < up)"

definition rounds_to :: "rat \<Rightarrow> int \<Rightarrow> bool" where
  "rounds_to v n =
     (if n = 0 then \<bar>v\<bar> \<le> 1 / 2 ^ 1075
      else if 0 < n then nearest_positive v n
      else nearest_positive (- v) (- n))"

text \<open>\<^verbatim>\<open>n == Number(s)\<close> for a number \<open>n\<close> and a string \<open>s\<close>.\<close>

definition equals_string :: "jsint \<Rightarrow> string \<Rightarrow> bool" where
  "equals_string n s =
     (case string_value s of Finite v \<Rightarrow> rounds_to v (int_of n) | _ \<Rightarrow> False)"

subsection \<open>Loose equality\<close>

text \<open>The primitive a plain object converts to is the string of \<^verbatim>\<open>Object.prototype.toString\<close>.\<close>

fun to_primitive :: "jsval \<Rightarrow> jsval" where
  "to_primitive (JObj a fs) = JStr ''[object Object]''"
| "to_primitive v = v"

fun is_object :: "jsval \<Rightarrow> bool" where
  "is_object (JObj a fs) = True"
| "is_object v = False"

text \<open>A boolean operand of \<^verbatim>\<open>==\<close> is replaced by the number \<open>1\<close> or \<open>0\<close>.\<close>

fun number_of_boolean :: "jsval \<Rightarrow> jsval" where
  "number_of_boolean (JBool b) = JNum (jsint (if b then 1 else 0))"
| "number_of_boolean v = v"

text \<open>\<^verbatim>\<open>==\<close> between numbers and strings: a string facing a number is read as a number.\<close>

fun primitive_eq :: "jsval \<Rightarrow> jsval \<Rightarrow> bool" where
  "primitive_eq (JNum m) (JNum n) = (m = n)"
| "primitive_eq (JStr s) (JStr t) = (s = t)"
| "primitive_eq (JNum n) (JStr s) = equals_string n s"
| "primitive_eq (JStr s) (JNum n) = equals_string n s"
| "primitive_eq v w = False"

text \<open>
  \<^verbatim>\<open>v == w\<close>, the loose comparison: undefined and null equal each other and nothing
  else; two objects are equal when they are the same object; otherwise a boolean is
  replaced by its number, an object by its primitive, and the two sides are compared as
  numbers and strings.
\<close>

definition loose_eq :: "jsval \<Rightarrow> jsval \<Rightarrow> bool" where
  "loose_eq v w =
     (if nullish v \<or> nullish w then nullish v \<and> nullish w
      else if is_object v \<and> is_object w then strict_eq v w
      else primitive_eq (to_primitive (number_of_boolean v))
             (to_primitive (number_of_boolean w)))"

subsection \<open>Properties\<close>

text \<open>
  \<^verbatim>\<open>v.k\<close> for a value that is neither undefined nor null. The helpers read data
  properties only (\<^verbatim>\<open>hash\<close>, \<^verbatim>\<open>filename\<close>, \<^verbatim>\<open>public_id\<close>, ...), which a
  primitive boolean, number or string does not have.
\<close>

fun field :: "jsval \<Rightarrow> string \<Rightarrow> jsval" where
  "field (JObj a fs) k = (case map_of fs k of None \<Rightarrow> JUndefined | Some v \<Rightarrow> v)"
| "field v k = JUndefined"

text \<open>\<^verbatim>\<open>v.k\<close> in general: reading a property of undefined or null throws.\<close>

definition get_prop :: "jsval \<Rightarrow> string \<Rightarrow> error + jsval" where
  "get_prop v k = (if nullish v then Inl TypeError else Inr (field v k))"






section \<open>String methods used by the helpers\<close>

text \<open>
  \<^verbatim>\<open>s.replace(p, r)\<close> with a string pattern: the first occurrence of \<open>p\<close> is
  replaced, wherever it is. (No replacement text of the source contains a \<^verbatim>\<open>$\<close>.)
\<close>

fun replace :: "string \<Rightarrow> string \<Rightarrow> string \<Rightarrow> string" where
  "replace [] p r = (if p = [] then r else [])"
| "replace (c # cs) p r =
     (if prefix p (c # cs) then r @ drop (length p) (c # cs) else c # replace cs p r)"

text \<open>\<^verbatim>\<open>s.indexOf(p)\<close>: the index of the first occurrence, or \<open>-1\<close>.\<close>

fun indexOf :: "string \<Rightarrow> string \<Rightarrow> int" where
  "indexOf [] p = (if p = [] then 0 else - 1)"
| "indexOf (c # cs) p =
     (if prefix p (c # cs) then 0
      else (let i = indexOf cs p in if i = - 1 then - 1 else i + 1))"

text \<open>\<^verbatim>\<open>s.replace(/ /g, r)\<close>: every space character is replaced.\<close>

definition replace_spaces :: "string \<Rightarrow> string \<Rightarrow> string" where
  "replace_spaces s r = concat (map (\<lambda>c. if c = CHR '' '' then r else [c]) s)"

text \<open>\<^verbatim>\<open>s.charAt(i)\<close>: the one-character string at \<open>i\<close>, the empty string out of range.\<close>

definition charAt :: "string \<Rightarrow> int \<Rightarrow> string" where
  "charAt s i = (if 0 \<le> i \<and> i < int (length s) then [s ! nat i] else [])"

text \<open>\<^verbatim>\<open>s.slice(start)\<close>: a negative start counts from the end.\<close>

definition slice :: "string \<Rightarrow> int \<Rightarrow> string" where
  "slice s start =
     (let len = int (length s);
          from = (if start < 0 then max (len + start) 0 else min start len)
      in drop (nat from) s)"

text \<open>
  \<^verbatim>\<open>s.substring(start, end)\<close>: both indices are clamped to \<open>0 .. length\<close> and
  swapped when out of order.
\<close>

definition substring :: "string \<Rightarrow> int \<Rightarrow> int \<Rightarrow> string" where
  "substring s start end =
     (let len = int (length s);
          a = max 0 (min start len);
          b = max 0 (min end len);
          lo = min a b;
          hi = max a b
      in take (nat (hi - lo)) (drop (nat lo) s))"

section \<open>The string helpers\<close>

text \<open>
  \<^verbatim>\<open>toLowerCase\<close> and \<^verbatim>\<open>toUpperCase\<close> are methods of the language, with the
  case mappings of Unicode behind them. The helpers that call them take them as a
  parameter: a function from strings to strings.

  \<open>trim\<close> and \<open>limit\<close> are modelled on the arguments they are written for, a string
  and, for \<open>limit\<close>, an integer length.

  \<^verbatim>\<open>_helpers.trim = function(str) { return str.replace(/ /g, '-').toLowerCase(); }\<close>
\<close>

definition trim :: "(string \<Rightarrow> string) \<Rightarrow> string \<Rightarrow> string" where
  "trim toLowerCase str = toLowerCase (replace_spaces str ''-'')"

text \<open>
  \<^verbatim>\<open>
  _helpers.limit = function(str, length) {
      if (str.length <= length) return str;
      else return str.substring(0, length) + "...";
  }\<close>
\<close>

definition limit :: "string \<Rightarrow> int \<Rightarrow> string" where
  "limit str len =
     (if int (length str) \<le> len then str else substring str 0 len @ ''...'')"

text \<open>
  \<^verbatim>\<open>
  _helpers.upperCase = function(str) {
      return str.charAt(0).toUpperCase() + str.slice(1);
  }\<close>
  Anything but a string has no \<^verbatim>\<open>charAt\<close> method, and the call throws.
\<close>

fun upperCase :: "(string \<Rightarrow> string) \<Rightarrow> jsval \<Rightarrow> error + jsval" where
  "upperCase toUpperCase (JStr str) =
     Inr (JStr (toUpperCase (charAt str 0) @ slice str 1))"
| "upperCase toUpperCase _ = Inl TypeError"

text \<open>
  \<^verbatim>\<open>
  _helpers.secureUrl = function(str) {
      if (str !== undefined) return str.replace('http://', 'https://');
      else return str;
  }\<close>
  A value that is neither undefined nor a string has no \<^verbatim>\<open>replace\<close> method.
\<close>

fun secureUrl :: "jsval \<Rightarrow> error + jsval" where
  "secureUrl JUndefined = Inr JUndefined"
| "secureUrl (JStr str) = Inr (JStr (replace str ''http://'' ''https://''))"
| "secureUrl _ = Inl TypeError"

section \<open>The block helpers\<close>




section \<open>The file type helper\<close>

definition cssTypesApp :: "(string \<times> string) list" where
  "cssTypesApp =
     [(''pdf'', ''pdf''),
      (''zip'', ''zip''),
      (''ogg'', ''audio''),
      (''vnd.openxmlformats-officedocument.wordprocessingml.document'', ''word''),
      (''vnd.openxmlformats-officedocument.presentationml.presentation'', ''powerpoint''),
      (''vnd.openxmlformats-officedocument.spreadsheetml.sheet'', ''excel'')]"

text \<open>
  \<^verbatim>\<open>
  Object.keys(cssTypesApp).forEach(function(t, i) {
      if (t === mimeType) cssType = cssTypesApp[t]
  });\<close>
  The variable \<^verbatim>\<open>cssType\<close> is \<open>None\<close> while it is undefined.
\<close>

definition forEach_key :: "string \<Rightarrow> string option \<Rightarrow> string option" where
  "forEach_key mimeType cssType =
     fold (\<lambda>t cssType. if t = mimeType then map_of cssTypesApp t else cssType)
       (map fst cssTypesApp) cssType"

text \<open>
  \<^verbatim>\<open>
  _helpers.fileType = function(file) {
      var fileType = file.filetype;
      var cssType;
      if (fileType === undefined) return 'file';
      if (fileType.indexOf('audio/') !== -1) cssType = 'audio';
      else if (fileType.indexOf('video/') !== -1) cssType = 'video';
      else if (fileType.indexOf('image/') !== -1) cssType = 'image';
      else {
          var mimeType = file.filetype.replace('application/', '');
          Object.keys(cssTypesApp).forEach(...);
      }
      if (cssType !== undefined) return cssType + '-o';
      else return 'file';
  }\<close>
  A \<^verbatim>\<open>filetype\<close> that is neither undefined nor a string has no \<^verbatim>\<open>indexOf\<close> method.
\<close>

definition fileType :: "jsval \<Rightarrow> error + string" where
  "fileType file =
     (case get_prop file ''filetype'' of
        Inl e \<Rightarrow> Inl e
      | Inr fileType \<Rightarrow>
          if strict_eq fileType JUndefined then Inr ''file''
          else (case fileType of
                  JStr ft \<Rightarrow>
                    (let cssType =
                       (if indexOf ft ''audio/'' \<noteq> - 1 then Some ''audio''
                        else if indexOf ft ''video/'' \<noteq> - 1 then Some ''video''
                        else if indexOf ft ''image/'' \<noteq> - 1 then Some ''image''
                        else (let mimeType = replace ft ''application/'' []
                              in forEach_key mimeType None))
                     in (case cssType of
                           Some c \<Rightarrow> Inr (c @ ''-o'')
                         | None \<Rightarrow> Inr ''file''))
                | _ \<Rightarrow> Inl TypeError))"

section \<open>The image helper\<close>

text \<open>
  The helper uses two members of the template library: \<^verbatim>\<open>escapeExpression\<close>, which
  gives the empty string for undefined and null, the plain spelling of the other falsy
  values, and otherwise the string of its argument with the characters
  \<^verbatim>\<open>& < > " ' ` =\<close> replaced by their entities; and the constructor
  \<^verbatim>\<open>SafeString\<close>, \<^verbatim>\<open>function SafeString(string) { this.string = string; }\<close>.
  A helper's result is either a safe-string object or a plain value.
\<close>

datatype rendered = SafeString string | Value jsval

definition escapeChar :: "char \<Rightarrow> string" where
  "escapeChar c =
     (if c = CHR ''&'' then ''&amp;''
      else if c = CHR ''<'' then ''&lt;''
      else if c = CHR ''>'' then ''&gt;''
      else if c = CHR 0x22 then ''&quot;''
      else if c = CHR 0x27 then ''&#x27;''
      else if c = CHR 0x60 then ''&#x60;''
      else if c = CHR ''='' then ''&#x3D;''
      else [c])"

definition escapeExpression :: "jsval \<Rightarrow> string" where
  "escapeExpression v =
     (case v of
        JStr s \<Rightarrow> concat (map escapeChar s)
      | _ \<Rightarrow>
          if nullish v then []
          else if \<not> truthy v then to_string v
          else concat (map escapeChar (to_string v)))"

text \<open>
  \<^verbatim>\<open>new hbs.SafeString(s)\<close> builds the safe-string object. \<^verbatim>\<open>hbs.SafeString(s)\<close>
  without \<^verbatim>\<open>new\<close> is an ordinary call of the constructor function: its body
  runs against the receiver \<^verbatim>\<open>hbs\<close>, no object is built, and the value of the call is
  what a function without a return statement gives, undefined.
\<close>

definition new_SafeString :: "string \<Rightarrow> rendered" where
  "new_SafeString s = SafeString s"

definition call_SafeString :: "string \<Rightarrow> rendered" where
  "call_SafeString s = Value JUndefined"

definition apostrophe :: string where
  "apostrophe = [CHR 0x27]"

text \<open>
  \<^verbatim>\<open>
  _helpers.img = function(image) {
      if (image.filename == null) return hbs.SafeString('');
      path = hbs.escapeExpression(image.path).replace('./public/', '');
      filename = hbs.escapeExpression(image.filename);
      return new hbs.SafeString(
          "<img src='" + path + "/" + filename + "' alt='" + filename + "'>");
  }\<close>
  (\<^verbatim>\<open>path\<close> and \<^verbatim>\<open>filename\<close> are undeclared, hence global, variables; nothing
  reads them back. The parameter is \<open>image_arg\<close> here.)
\<close>

definition img :: "jsval \<Rightarrow> error + rendered" where
  "img image_arg =
     (case get_prop image_arg ''filename'' of
        Inl e \<Rightarrow> Inl e
      | Inr image_filename \<Rightarrow>
          if loose_eq image_filename JNull then Inr (call_SafeString [])
          else
            (let path = replace (escapeExpression (field image_arg ''path'')) ''./public/'' [];
                 filename = escapeExpression image_filename
             in Inr (new_SafeString
                  (''<img src='' @ apostrophe @ path @ ''/'' @ filename @ apostrophe
                   @ '' alt='' @ apostrophe @ filename @ apostrophe @ ''>''))))"

section \<open>The asset URL helpers\<close>






section \<open>The other helpers\<close>














section \<open>The registry\<close>



text \<open>What a call gives back: a safe string or a plain value, or a Number value in general.\<close>

datatype returned = Rendered rendered | Number numeric

definition plain :: "error + jsval \<Rightarrow> error + returned" where
  "plain r = (case r of Inl e \<Rightarrow> Inl e | Inr v \<Rightarrow> Inr (Rendered (Value v)))"






section \<open>Stand-ins for running the helpers on examples\<close>

text \<open>
  The functions below take the place of the parameters in examples. The case conversions
  are those of the language on the code units up to \<^verbatim>\<open>U+00FF\<close>, except that the
  capitals of \<^verbatim>\<open>U+00B5\<close> and \<^verbatim>\<open>U+00FF\<close> lie beyond that range and the two are left
  as they are.
\<close>

definition upper_letters :: string where
  "upper_letters = ''ABCDEFGHIJKLMNOPQRSTUVWXYZ'' @ [CHR 0xC0, CHR 0xC1, CHR 0xC2, CHR 0xC3, CHR 0xC4, CHR 0xC5, CHR 0xC6, CHR 0xC7, CHR 0xC8, CHR 0xC9, CHR 0xCA, CHR 0xCB, CHR 0xCC, CHR 0xCD, CHR 0xCE, CHR 0xCF, CHR 0xD0, CHR 0xD1, CHR 0xD2, CHR 0xD3, CHR 0xD4, CHR 0xD5, CHR 0xD6, CHR 0xD8, CHR 0xD9, CHR 0xDA, CHR 0xDB, CHR 0xDC, CHR 0xDD, CHR 0xDE]"

definition lower_letters :: string where
  "lower_letters = ''abcdefghijklmnopqrstuvwxyz'' @ [CHR 0xE0, CHR 0xE1, CHR 0xE2, CHR 0xE3, CHR 0xE4, CHR 0xE5, CHR 0xE6, CHR 0xE7, CHR 0xE8, CHR 0xE9, CHR 0xEA, CHR 0xEB, CHR 0xEC, CHR 0xED, CHR 0xEE, CHR 0xEF, CHR 0xF0, CHR 0xF1, CHR 0xF2, CHR 0xF3, CHR 0xF4, CHR 0xF5, CHR 0xF6, CHR 0xF8, CHR 0xF9, CHR 0xFA, CHR 0xFB, CHR 0xFC, CHR 0xFD, CHR 0xFE]"

definition toLowerCase_char :: "char \<Rightarrow> char" where
  "toLowerCase_char c =
     (case map_of (zip upper_letters lower_letters) c of None \<Rightarrow> c | Some l \<Rightarrow> l)"

definition toUpperCase_char :: "char \<Rightarrow> string" where
  "toUpperCase_char c =
     (if c = CHR 0xDF then ''SS''
      else (case map_of (zip lower_letters upper_letters) c of None \<Rightarrow> [c] | Some u \<Rightarrow> [u]))"

definition sample_toLowerCase :: "string \<Rightarrow> string" where
  "sample_toLowerCase s = map toLowerCase_char s"

definition sample_toUpperCase :: "string \<Rightarrow> string" where
  "sample_toUpperCase s = concat (map toUpperCase_char s)"







section \<open>Facts about the values\<close>




section \<open>Facts about the string methods\<close>

lemma replace_prefix: "prefix p s \<Longrightarrow> replace s p r = r @ drop (length p) s"
  by (cases s) auto

lemma replace_at_start: "replace (p @ t) p r = r @ t"
  by (simp add: replace_prefix)

lemma replace_absent: "\<not> sublist p s \<Longrightarrow> replace s p r = s"
proof (induction s)
  case Nil
  then show ?case by auto
next
  case (Cons c cs)
  from Cons.prems have "\<not> prefix p (c # cs)"
    using prefix_imp_sublist by blast
  moreover from Cons.prems have "\<not> sublist p cs"
    by (auto simp: sublist_Cons_right)
  ultimately show ?case using Cons.IH by simp
qed

lemma replace_spaces_no_space:
  "CHR '' '' \<notin> set r \<Longrightarrow> CHR '' '' \<notin> set (replace_spaces s r)"
  by (induction s) (auto simp: replace_spaces_def)

lemma replace_spaces_absent: "CHR '' '' \<notin> set s \<Longrightarrow> replace_spaces s r = s"
  by (induction s) (auto simp: replace_spaces_def)

lemma substring_take: "n < int (length s) \<Longrightarrow> substring s 0 n = take (nat n) s"
  by (auto simp: substring_def Let_def min_def max_def)

lemma limit_short: "int (length s) \<le> n \<Longrightarrow> limit s n = s"
  by (simp add: limit_def)

lemma limit_long: "n < int (length s) \<Longrightarrow> limit s n = take (nat n) s @ ''...''"
  by (simp add: limit_def substring_take)

lemma indexOf_range: "indexOf s p = - 1 \<or> 0 \<le> indexOf s p"
  by (induction s) (auto simp: Let_def)

lemma replace_indexOf:
  "replace s p r =
     (if indexOf s p = - 1 then s
      else take (nat (indexOf s p)) s @ r @ drop (nat (indexOf s p) + length p) s)"
proof (induction s)
  case Nil
  show ?case by simp
next
  case (Cons c cs)
  show ?case
  proof (cases "prefix p (c # cs)")
    case True
    then show ?thesis by simp
  next
    case False
    show ?thesis
    proof (cases "indexOf cs p = - 1")
      case True
      with False Cons.IH show ?thesis by simp
    next
      case found: False
      with indexOf_range[of cs p] have "0 \<le> indexOf cs p" by simp
      then have "nat (indexOf cs p + 1) = Suc (nat (indexOf cs p))" by simp
      with False found Cons.IH \<open>0 \<le> indexOf cs p\<close> show ?thesis by (simp add: Let_def)
    qed
  qed
qed

lemma indexOf_example: "indexOf ''https://a.b/?u=http://c.d'' ''http://'' = 15"
  by simp

section \<open>Facts about the stand-ins\<close>

lemma letters_distinct: "distinct (upper_letters @ lower_letters)"
  by (simp add: upper_letters_def lower_letters_def)

lemma letters_length: "length upper_letters = length lower_letters"
  by (simp add: upper_letters_def lower_letters_def)

lemma not_letter_space: "CHR '' '' \<notin> set (upper_letters @ lower_letters)"
  by (simp add: upper_letters_def lower_letters_def)

lemma toLowerCase_char_cases:
  "(c \<notin> set upper_letters \<and> toLowerCase_char c = c) \<or>
   (c \<in> set upper_letters \<and> toLowerCase_char c \<in> set lower_letters)"
proof (cases "map_of (zip upper_letters lower_letters) c")
  case None
  then have "c \<notin> fst ` set (zip upper_letters lower_letters)"
    by (simp add: map_of_eq_None_iff)
  then have "c \<notin> set (map fst (zip upper_letters lower_letters))"
    by simp
  then have "c \<notin> set upper_letters"
    using letters_length by simp
  with None show ?thesis
    by (simp add: toLowerCase_char_def)
next
  case (Some l)
  then have "(c, l) \<in> set (zip upper_letters lower_letters)"
    by (rule map_of_SomeD)
  then have "c \<in> set upper_letters" and "l \<in> set lower_letters"
    by (auto dest: set_zip_leftD set_zip_rightD)
  with Some show ?thesis
    by (simp add: toLowerCase_char_def)
qed

lemma toLowerCase_char_not_upper: "toLowerCase_char c \<notin> set upper_letters"
  using toLowerCase_char_cases[of c] letters_distinct by auto

lemma toLowerCase_char_idem: "toLowerCase_char (toLowerCase_char c) = toLowerCase_char c"
  using toLowerCase_char_cases[of "toLowerCase_char c"] toLowerCase_char_not_upper[of c]
  by auto

lemma toLowerCase_char_space: "toLowerCase_char c = CHR '' '' \<longleftrightarrow> c = CHR '' ''"
  using toLowerCase_char_cases[of c] not_letter_space by auto

lemma sample_toLowerCase_idem: "sample_toLowerCase (sample_toLowerCase s) = sample_toLowerCase s"
  by (simp add: sample_toLowerCase_def toLowerCase_char_idem)

lemma sample_toLowerCase_no_space:
  "CHR '' '' \<notin> set s \<Longrightarrow> CHR '' '' \<notin> set (sample_toLowerCase s)"
proof
  assume absent: "CHR '' '' \<notin> set s" and "CHR '' '' \<in> set (sample_toLowerCase s)"
  then obtain c where "c \<in> set s" and "toLowerCase_char c = CHR '' ''"
    by (auto simp: sample_toLowerCase_def)
  then have "CHR '' '' \<in> set s"
    by (simp add: toLowerCase_char_space)
  with absent show False ..
qed

lemma sample_toLowerCase_example:
  "sample_toLowerCase ''Elvis-Costello'' = ''elvis-costello'' \<and>
   sample_toLowerCase [CHR 0xC0, CHR ''-'', CHR ''B''] = [CHR 0xE0, CHR ''-'', CHR ''b'']"
  by (simp add: sample_toLowerCase_def toLowerCase_char_def upper_letters_def lower_letters_def)

lemma sample_toUpperCase_example:
  "sample_toUpperCase [] = [] \<and>
   sample_toUpperCase ''e'' = ''E'' \<and>
   sample_toUpperCase [CHR 0xDF] = ''SS'' \<and>
   sample_toUpperCase [CHR 0xE9] = [CHR 0xC9]"
  by (simp add: sample_toUpperCase_def toUpperCase_char_def upper_letters_def lower_letters_def)

section \<open>The claims about the string helpers\<close>

text \<open>
  C5. For every string \<open>s\<close> and integer \<open>n\<close>: if the length of \<open>s\<close> is at most \<open>n\<close>,
  then \<open>limit s n\<close> is \<open>s\<close> itself (so also at the boundary, where the length is \<open>n\<close>);
  otherwise it is the first \<open>n\<close> characters of \<open>s\<close> followed by three dots. (A negative
  \<open>n\<close> leaves no characters before the dots.)
\<close>

theorem limit_spec:
  "(int (length s) \<le> n \<longrightarrow> limit s n = s) \<and>
   (\<not> int (length s) \<le> n \<longrightarrow> limit s n = take (nat n) s @ ''...'')"
  using limit_short[of s n] limit_long[of n s] by simp

theorem limit_spec_witness:
  "limit ''Elvis'' 5 = ''Elvis'' \<and> limit ''Elvis Costello'' 5 = ''Elvis...''"
  using limit_spec[of "''Elvis''" 5] limit_spec[of "''Elvis Costello''" 5] by simp

text \<open>
  C10. Limiting is idempotent at a fixed length: for every string \<open>s\<close> and every
  non-negative \<open>n\<close>, limiting the limited string again, also one that gained the dots,
  leaves it as it is.
\<close>

theorem limit_idempotent: "0 \<le> n \<Longrightarrow> limit (limit s n) n = limit s n"
proof (cases "int (length s) \<le> n")
  case True
  then show ?thesis by (simp add: limit_short)
next
  case False
  assume "0 \<le> n"
  from False have cut: "limit s n = take (nat n) s @ ''...''"
    by (simp add: limit_long)
  from False \<open>0 \<le> n\<close> have len: "length (take (nat n) s) = nat n"
    by simp
  with \<open>0 \<le> n\<close> have "n < int (length (take (nat n) s @ ''...''))"
    by simp
  then have "limit (take (nat n) s @ ''...'') n = take (nat n) (take (nat n) s @ ''...'') @ ''...''"
    by (rule limit_long)
  also have "take (nat n) (take (nat n) s @ ''...'') = take (nat n) s"
    using len by simp
  finally show ?thesis using cut by simp
qed

theorem limit_idempotent_witness:
  "(0::int) \<le> 5 \<and> limit (limit ''Elvis Costello'' 5) 5 = limit ''Elvis Costello'' 5
   \<and> limit ''Elvis Costello'' 5 = ''Elvis...''"
  using limit_idempotent[of 5 "''Elvis Costello''"] limit_long[of 5 "''Elvis Costello''"] by simp

text \<open>
  C6. For every string \<open>s\<close>, \<open>trim s\<close> contains no space character and is fully
  lowercase, that is, \<^verbatim>\<open>toLowerCase\<close> leaves it as it is; and \<open>trim\<close> is idempotent.
  This holds for the \<^verbatim>\<open>toLowerCase\<close> of the language by two properties of it: applying
  it twice is applying it once, and it brings no space character into a string that has
  none.
\<close>

theorem trim_spec:
  assumes idem: "\<forall>t. toLowerCase (toLowerCase t) = toLowerCase t"
    and clean: "\<forall>t. CHR '' '' \<notin> set t \<longrightarrow> CHR '' '' \<notin> set (toLowerCase t)"
  shows "CHR '' '' \<notin> set (trim toLowerCase s) \<and>
     toLowerCase (trim toLowerCase s) = trim toLowerCase s \<and>
     trim toLowerCase (trim toLowerCase s) = trim toLowerCase s"
proof -
  have "CHR '' '' \<notin> set (replace_spaces s ''-'')"
    by (rule replace_spaces_no_space) simp
  with clean have no_space: "CHR '' '' \<notin> set (trim toLowerCase s)"
    by (simp add: trim_def)
  have lower: "toLowerCase (trim toLowerCase s) = trim toLowerCase s"
    using idem by (simp add: trim_def)
  have "replace_spaces (trim toLowerCase s) ''-'' = trim toLowerCase s"
    using no_space by (rule replace_spaces_absent)
  then have "trim toLowerCase (trim toLowerCase s) = toLowerCase (trim toLowerCase s)"
    by (simp add: trim_def)
  with no_space lower show ?thesis
    by simp
qed

theorem trim_spec_witness:
  "trim sample_toLowerCase ''Elvis Costello'' = ''elvis-costello'' \<and>
   CHR '' '' \<notin> set (trim sample_toLowerCase ''Elvis Costello'') \<and>
   sample_toLowerCase (trim sample_toLowerCase ''Elvis Costello'')
     = trim sample_toLowerCase ''Elvis Costello'' \<and>
   trim sample_toLowerCase (trim sample_toLowerCase ''Elvis Costello'')
     = trim sample_toLowerCase ''Elvis Costello'' \<and>
   trim sample_toLowerCase [CHR 0xC0, CHR '' '', CHR ''B''] = [CHR 0xE0, CHR ''-'', CHR ''b'']"
proof -
  have idem: "\<forall>t. sample_toLowerCase (sample_toLowerCase t) = sample_toLowerCase t"
    by (simp add: sample_toLowerCase_idem)
  have clean: "\<forall>t. CHR '' '' \<notin> set t \<longrightarrow> CHR '' '' \<notin> set (sample_toLowerCase t)"
    by (simp add: sample_toLowerCase_no_space)
  have "trim sample_toLowerCase ''Elvis Costello'' = ''elvis-costello''"
    and "trim sample_toLowerCase [CHR 0xC0, CHR '' '', CHR ''B''] = [CHR 0xE0, CHR ''-'', CHR ''b'']"
    using sample_toLowerCase_example by (simp_all add: trim_def replace_spaces_def)
  with trim_spec[OF idem clean, of "''Elvis Costello''"] show ?thesis
    by simp
qed

text \<open>
  C9. \<open>upperCase\<close> applied to the empty string does not throw, and no string at all
  makes it throw: for the empty string it returns what \<^verbatim>\<open>toUpperCase\<close> makes of the empty
  string, which is the empty string. For a non-empty string it returns the first
  character uppercased, that is, what \<^verbatim>\<open>toUpperCase\<close> makes of the string of that one
  character, followed by the rest of the string unchanged.
\<close>

theorem upperCase_spec:
  "upperCase toUpperCase (JStr s) \<noteq> Inl e \<and>
   upperCase toUpperCase (JStr []) = Inr (JStr (toUpperCase [])) \<and>
   (toUpperCase [] = [] \<longrightarrow> upperCase toUpperCase (JStr []) = Inr (JStr [])) \<and>
   upperCase toUpperCase (JStr (c # cs)) = Inr (JStr (toUpperCase [c] @ cs))"
  by (simp add: charAt_def slice_def)

theorem upperCase_spec_witness:
  "upperCase sample_toUpperCase (JStr []) = Inr (JStr []) \<and>
   upperCase sample_toUpperCase (JStr ''elvis'') = Inr (JStr ''Elvis'') \<and>
   upperCase sample_toUpperCase (JStr (CHR 0xDF # ''a'')) = Inr (JStr ''SSa'') \<and>
   upperCase sample_toUpperCase (JStr (CHR 0xE9 # ''lan'')) = Inr (JStr (CHR 0xC9 # ''lan''))"
  using upperCase_spec[of sample_toUpperCase _ _ "CHR ''e''" "''lvis''"]
    upperCase_spec[of sample_toUpperCase _ _ "CHR 0xDF" "''a''"]
    upperCase_spec[of sample_toUpperCase _ _ "CHR 0xE9" "''lan''"]
    sample_toUpperCase_example
  by simp

text \<open>
  C4, as stated, says that a string already beginning with \<^verbatim>\<open>https://\<close> is returned
  unchanged. The helper replaces the first \<^verbatim>\<open>http://\<close> wherever it stands, so a
  secure URL that carries a plain one further on is changed.
\<close>

theorem secureUrl_counterexample:
  "prefix ''https://'' ''https://a.b/?u=http://c.d'' \<and>
   secureUrl (JStr ''https://a.b/?u=http://c.d'') = Inr (JStr ''https://a.b/?u=https://c.d'') \<and>
   secureUrl (JStr ''https://a.b/?u=http://c.d'') \<noteq> Inr (JStr ''https://a.b/?u=http://c.d'')"
  by simp

text \<open>
  C4, amended. \<open>secureUrl\<close> of undefined is undefined, without throwing; a string
  beginning with \<^verbatim>\<open>http://\<close> has that prefix replaced by \<^verbatim>\<open>https://\<close>; a string in
  which \<^verbatim>\<open>http://\<close> does not occur is returned unchanged, so
  \<^verbatim>\<open>secureUrl("https://x")\<close> is \<^verbatim>\<open>"https://x"\<close>; and in a string in which it occurs,
  the first occurrence is the one replaced, wherever it stands.
\<close>

theorem secureUrl_spec:
  "secureUrl JUndefined = Inr JUndefined \<and>
   secureUrl (JStr (''http://'' @ t)) = Inr (JStr (''https://'' @ t)) \<and>
   (\<not> sublist ''http://'' s \<longrightarrow> secureUrl (JStr s) = Inr (JStr s)) \<and>
   secureUrl (JStr ''https://x'') = Inr (JStr ''https://x'') \<and>
   (indexOf s ''http://'' \<noteq> - 1 \<longrightarrow>
      secureUrl (JStr s) =
        Inr (JStr (take (nat (indexOf s ''http://'')) s @ ''https://''
                   @ drop (nat (indexOf s ''http://'') + length ''http://'') s)))"
proof -
  have "secureUrl (JStr (''http://'' @ t)) = Inr (JStr (''https://'' @ t))"
    using replace_at_start[of "''http://''" t "''https://''"] by simp
  moreover have "\<not> sublist ''http://'' s \<longrightarrow> secureUrl (JStr s) = Inr (JStr s)"
    by (simp add: replace_absent)
  moreover have "indexOf s ''http://'' \<noteq> - 1 \<longrightarrow>
      secureUrl (JStr s) =
        Inr (JStr (take (nat (indexOf s ''http://'')) s @ ''https://''
                   @ drop (nat (indexOf s ''http://'') + length ''http://'') s))"
    using replace_indexOf[of s "''http://''" "''https://''"] by simp
  ultimately show ?thesis by simp
qed

theorem secureUrl_spec_witness:
  "secureUrl (JStr ''http://x'') = Inr (JStr ''https://x'') \<and>
   secureUrl (JStr ''https://x'') = Inr (JStr ''https://x'') \<and>
   secureUrl (JStr ''https://a.b/?u=http://c.d'') = Inr (JStr ''https://a.b/?u=https://c.d'')"
  using secureUrl_spec[of "''x''" "''https://a.b/?u=http://c.d''"] indexOf_example
  by simp

section \<open>The claim about the block helpers\<close>













section \<open>The claim about the file type helper\<close>

lemma indexOf_sublist: "indexOf s p \<noteq> - 1 \<longleftrightarrow> sublist p s"
proof (induction s)
  case Nil
  show ?case by simp
next
  case (Cons c cs)
  show ?case
  proof (cases "prefix p (c # cs)")
    case True
    then show ?thesis by (simp add: prefix_imp_sublist)
  next
    case False
    have "indexOf cs p + 1 \<noteq> - 1"
      using indexOf_range[of cs p] by auto
    with False Cons.IH[symmetric] show ?thesis
      by (simp add: Let_def sublist_Cons_right)
  qed
qed

lemma fold_select:
  "fold (\<lambda>t acc. if t = m then f t else acc) ks acc = (if m \<in> set ks then f m else acc)"
  by (induction ks arbitrary: acc) auto

lemma forEach_key_lookup: "forEach_key m None = map_of cssTypesApp m"
proof -
  have "forEach_key m None =
        (if m \<in> set (map fst cssTypesApp) then map_of cssTypesApp m else None)"
    unfolding forEach_key_def by (rule fold_select)
  also have "\<dots> = map_of cssTypesApp m"
  proof (cases "m \<in> set (map fst cssTypesApp)")
    case True
    then show ?thesis by simp
  next
    case False
    then have "map_of cssTypesApp m = None"
      by (simp add: map_of_eq_None_iff)
    with False show ?thesis by simp
  qed
  finally show ?thesis .
qed

lemma fileType_string:
  "map_of fs ''filetype'' = Some (JStr ft) \<Longrightarrow>
   fileType (JObj a fs) =
     Inr (if sublist ''audio/'' ft then ''audio-o''
          else if sublist ''video/'' ft then ''video-o''
          else if sublist ''image/'' ft then ''image-o''
          else (case map_of cssTypesApp (replace ft ''application/'' []) of
                  Some icon \<Rightarrow> icon @ ''-o''
                | None \<Rightarrow> ''file''))"
  using indexOf_sublist[of ft]
  by (simp add: fileType_def get_prop_def nullish_def strict_eq_def forEach_key_lookup
      split: option.split)

lemma fileType_missing: "map_of fs ''filetype'' = None \<Longrightarrow> fileType (JObj a fs) = Inr ''file''"
  by (simp add: fileType_def get_prop_def nullish_def strict_eq_def)

lemma application_keys_plain_all:
  "list_all (\<lambda>(k, icon).
     indexOf (''application/'' @ k) ''audio/'' = - 1 \<and>
     indexOf (''application/'' @ k) ''video/'' = - 1 \<and>
     indexOf (''application/'' @ k) ''image/'' = - 1) cssTypesApp"
  by (simp add: cssTypesApp_def)

lemma application_keys_plain:
  "(k, icon) \<in> set cssTypesApp \<Longrightarrow>
     \<not> sublist ''audio/'' (''application/'' @ k) \<and>
     \<not> sublist ''video/'' (''application/'' @ k) \<and>
     \<not> sublist ''image/'' (''application/'' @ k)"
  using application_keys_plain_all indexOf_sublist[of "''application/'' @ k"]
  unfolding list_all_iff by blast
lemma cssTypesApp_distinct: "distinct (map fst cssTypesApp)"
  by (simp add: cssTypesApp_def)

text \<open>
  C2, as stated, classifies by the top-level type and gives \<^verbatim>\<open>'file'\<close> for a string
  that has none of the three top-level types and is not \<^verbatim>\<open>application/\<close> followed by
  a table key. The helper asks whether \<^verbatim>\<open>audio/\<close>, \<^verbatim>\<open>video/\<close> or
  \<^verbatim>\<open>image/\<close> occurs anywhere in the string, and removes the first
  \<^verbatim>\<open>application/\<close> wherever it stands: a type whose name only ends in
  \<^verbatim>\<open>audio\<close> gets the audio icon, and a string that becomes a table key once
  \<^verbatim>\<open>application/\<close> is cut out of its middle gets that key's icon.
\<close>

theorem fileType_counterexample:
  "\<not> prefix ''audio/'' ''x-audio/mp3'' \<and>
   \<not> prefix ''video/'' ''x-audio/mp3'' \<and>
   \<not> prefix ''image/'' ''x-audio/mp3'' \<and>
   \<not> sublist ''application/'' ''x-audio/mp3'' \<and>
   fileType (JObj 0 [(''filetype'', JStr ''x-audio/mp3'')]) = Inr ''audio-o'' \<and>
   fileType (JObj 0 [(''filetype'', JStr ''x-audio/mp3'')]) \<noteq> Inr ''file'' \<and>
   drop (length ''papplication/'') ''papplication/df'' = ''df'' \<and>
   map_of cssTypesApp ''df'' = None \<and>
   fileType (JObj 0 [(''filetype'', JStr ''papplication/df'')]) = Inr ''pdf-o''"
  by (simp add: fileType_def get_prop_def nullish_def strict_eq_def forEach_key_lookup
      cssTypesApp_def sublist_Cons_right)

text \<open>
  C2, amended. For every file descriptor: without a \<^verbatim>\<open>filetype\<close> field the result
  is \<^verbatim>\<open>'file'\<close>. With a string there, the result is \<^verbatim>\<open>'audio-o'\<close> if
  \<^verbatim>\<open>audio/\<close> occurs in it; else \<^verbatim>\<open>'video-o'\<close> if \<^verbatim>\<open>video/\<close> occurs;
  else \<^verbatim>\<open>'image-o'\<close> if \<^verbatim>\<open>image/\<close> occurs; else the string with its first
  \<^verbatim>\<open>application/\<close> removed is looked up in the table, giving the icon name
  suffixed \<^verbatim>\<open>-o\<close>, or \<^verbatim>\<open>'file'\<close> when it is no key. So a top-level type
  \<^verbatim>\<open>audio/\<close> always gives \<^verbatim>\<open>'audio-o'\<close>; \<^verbatim>\<open>video/\<close> and
  \<^verbatim>\<open>image/\<close> give their icons when no earlier-tested pattern occurs in the string;
  and \<^verbatim>\<open>application/\<close> followed by a table key gives that key's icon.
\<close>

theorem fileType_spec:
  "(map_of fs ''filetype'' = None \<longrightarrow> fileType (JObj a fs) = Inr ''file'') \<and>
   (map_of fs ''filetype'' = Some (JStr ft) \<longrightarrow>
      fileType (JObj a fs) =
        Inr (if sublist ''audio/'' ft then ''audio-o''
             else if sublist ''video/'' ft then ''video-o''
             else if sublist ''image/'' ft then ''image-o''
             else (case map_of cssTypesApp (replace ft ''application/'' []) of
                     Some icon \<Rightarrow> icon @ ''-o''
                   | None \<Rightarrow> ''file''))) \<and>
   (map_of fs ''filetype'' = Some (JStr ft) \<and> prefix ''audio/'' ft \<longrightarrow>
      fileType (JObj a fs) = Inr ''audio-o'') \<and>
   (map_of fs ''filetype'' = Some (JStr ft) \<and> prefix ''video/'' ft \<and>
    \<not> sublist ''audio/'' ft \<longrightarrow>
      fileType (JObj a fs) = Inr ''video-o'') \<and>
   (map_of fs ''filetype'' = Some (JStr ft) \<and> prefix ''image/'' ft \<and>
    \<not> sublist ''audio/'' ft \<and> \<not> sublist ''video/'' ft \<longrightarrow>
      fileType (JObj a fs) = Inr ''image-o'') \<and>
   (map_of fs ''filetype'' = Some (JStr (''application/'' @ k)) \<and>
    (k, icon) \<in> set cssTypesApp \<longrightarrow>
      fileType (JObj a fs) = Inr (icon @ ''-o''))"
proof -
  have app: "fileType (JObj a fs) = Inr (icon @ ''-o'')"
    if "map_of fs ''filetype'' = Some (JStr (''application/'' @ k))"
      and "(k, icon) \<in> set cssTypesApp"
  proof -
    from that(2) have plain:
      "\<not> sublist ''audio/'' (''application/'' @ k)"
      "\<not> sublist ''video/'' (''application/'' @ k)"
      "\<not> sublist ''image/'' (''application/'' @ k)"
      using application_keys_plain by simp_all
    from that(2) have found: "map_of cssTypesApp k = Some icon"
      using cssTypesApp_distinct by simp
    have "replace (''application/'' @ k) ''application/'' [] = k"
      using replace_at_start[of "''application/''" k "[]"] by simp
    with plain found show ?thesis
      using fileType_string[OF that(1)] by simp
  qed
  show ?thesis
    using app fileType_missing[of fs a] fileType_string[of fs ft a]
    by (auto dest: prefix_imp_sublist)
qed

theorem fileType_spec_witness:
  "fileType (JObj 0 []) = Inr ''file'' \<and>
   fileType (JObj 0 [(''filetype'', JStr ''audio/mp3'')]) = Inr ''audio-o'' \<and>
   fileType (JObj 0 [(''filetype'', JStr ''application/pdf'')]) = Inr ''pdf-o''"
  using fileType_spec[where fs = "[]" and a = 0]
    fileType_spec[where fs = "[(''filetype'', JStr ''audio/mp3'')]" and ft = "''audio/mp3''"
      and a = 0]
    fileType_spec[where fs = "[(''filetype'', JStr ''application/pdf'')]" and a = 0
      and k = "''pdf''" and icon = "''pdf''"]
  by (simp add: cssTypesApp_def)

section \<open>The claim about the CDN asset helper\<close>







section \<open>The claim about the arguments and the results of the helpers\<close>




















section \<open>The claim about the image helper\<close>

lemma img_absent:
  "\<not> nullish image_arg \<Longrightarrow> nullish (field image_arg ''filename'') \<Longrightarrow>
   img image_arg = Inr (Value JUndefined)"
  by (auto simp: img_def get_prop_def loose_eq_def call_SafeString_def nullish_def)

text \<open>
  C8 says that without a \<^verbatim>\<open>filename\<close> the helper returns an empty safe string. On
  that path the source calls \<^verbatim>\<open>hbs.SafeString('')\<close> without \<^verbatim>\<open>new\<close>, which the
  path for a present filename has: the value returned is undefined, not a safe string.
  With a filename the helper returns the safe \<^verbatim>\<open><img>\<close> tag, the
  \<^verbatim>\<open>./public/\<close> prefix cut from the path.
\<close>

theorem img_missing_filename:
  "img (JObj 1 [(''path'', JStr ''./public/images'')]) = Inr (Value JUndefined) \<and>
   img (JObj 1 [(''path'', JStr ''./public/images'')]) \<noteq> Inr (SafeString []) \<and>
   img (JObj 1 [(''path'', JStr ''./public/images''), (''filename'', JStr ''logo.png'')])
   = Inr (SafeString (''<img src='' @ apostrophe @ ''images/logo.png'' @ apostrophe
                      @ '' alt='' @ apostrophe @ ''logo.png'' @ apostrophe @ ''>''))"
  by (simp add: img_def get_prop_def loose_eq_def nullish_def call_SafeString_def
      new_SafeString_def escapeExpression_def escapeChar_def Let_def)

end
